theory Spec2Isabelle
  imports Complex_Main "HOL-Library.Product_Lexorder"
begin

section \<open>The subscriber \<^verbatim>\<open>app/mqtt_simple.py\<close>\<close>

subsection \<open>Values of the Python run time\<close>

text \<open>
  Python floats are modelled as \<^typ>\<open>real\<close>: the code only adds, multiplies, divides and
  compares them. Infinities and NaN are outside the model, and so is the rounding of the
  means of \<^verbatim>\<open>get_avg\<close>; the rounding in the page's blend is a parameter of the model.
  Strings are \<^typ>\<open>string\<close>, read as ASCII text.

  A \<^verbatim>\<open>datetime\<close> is a count of microseconds since 0001-01-01T00:00:00, the smallest
  datetime; the largest is 9999-12-31T23:59:59.999999. Every timestamp the subscriber
  stores comes from \<^verbatim>\<open>datetime.now(timezone.utc)\<close>, so it is aware, with offset zero.
  Arithmetic that leaves the range raises \<^verbatim>\<open>OverflowError\<close>.
\<close>

type_synonym datetime = int

definition datetime_max :: datetime where
  "datetime_max = 315537897599999999"

definition is_datetime :: "int \<Rightarrow> bool" where
  "is_datetime t = (0 \<le> t \<and> t \<le> datetime_max)"

datatype py_error = OverflowError

text \<open>\<^verbatim>\<open>timedelta(seconds=n)\<close> for an integer \<open>n\<close>: microseconds, with at most 999999999 days.\<close>

definition timedelta_seconds :: "int \<Rightarrow> py_error + int" where
  "timedelta_seconds n =
     (if - 999999999 \<le> n div 86400 \<and> n div 86400 \<le> 999999999
      then Inr (n * 1000000) else Inl OverflowError)"

text \<open>\<^verbatim>\<open>dt - delta\<close> for a datetime and a timedelta.\<close>

definition datetime_sub :: "datetime \<Rightarrow> int \<Rightarrow> py_error + datetime" where
  "datetime_sub dt delta =
     (if is_datetime (dt - delta) then Inr (dt - delta) else Inl OverflowError)"

text \<open>What \<^verbatim>\<open>json.loads\<close> returns; a dict is the list of its items.\<close>

datatype json =
    JNull
  | JBool bool
  | JNumber real
  | JString string
  | JArray "json list"
  | JObject "(string \<times> json) list"

text \<open>
  The library functions that the subscriber and the page call on text, taken as
  parameters; \<^term>\<open>None\<close> stands for a raised exception or a failed match.
  \<^item> \<open>json_loads\<close>: \<^verbatim>\<open>json.loads\<close>;
  \<^item> \<open>float_of_str\<close>: \<^verbatim>\<open>float\<close> applied to a \<^verbatim>\<open>str\<close>;
  \<^item> \<open>re_temp\<close>, \<open>re_hum\<close>: the two \<^verbatim>\<open>re.search\<close> calls of \<^verbatim>\<open>_parse_payload\<close>, each followed by
    \<^verbatim>\<open>float(m.group(1))\<close> on the digits it captured;
  \<^item> \<open>fromisoformat\<close>: \<^verbatim>\<open>datetime.fromisoformat\<close>, giving the UTC offset in microseconds
    (\<^term>\<open>None\<close> for a naive datetime) and the local time.
\<close>

record pylib =
  json_loads :: "string \<Rightarrow> json option"
  float_of_str :: "string \<Rightarrow> real option"
  re_temp :: "string \<Rightarrow> real option"
  re_hum :: "string \<Rightarrow> real option"
  fromisoformat :: "string \<Rightarrow> (int option \<times> datetime) option"

text \<open>\<^verbatim>\<open>float(v)\<close> for a value out of a JSON document; \<^term>\<open>None\<close> when it raises.\<close>

fun py_float :: "pylib \<Rightarrow> json \<Rightarrow> real option" where
  "py_float lib (JNumber r) = Some r"
| "py_float lib (JBool b) = Some (if b then 1 else 0)"
| "py_float lib (JString s) = float_of_str lib s"
| "py_float lib JNull = None"
| "py_float lib (JArray xs) = None"
| "py_float lib (JObject kvs) = None"

subsection \<open>\<^verbatim>\<open>_parse_payload\<close>\<close>

text \<open>
  One \<^verbatim>\<open>for k in (...): if k in obj: try: x = float(obj[k]); break except: x = None\<close> loop,
  started with the value \<open>cur\<close> that the variable holds on entry.
\<close>

fun key_loop :: "pylib \<Rightarrow> (string \<times> json) list \<Rightarrow> string list \<Rightarrow> real option \<Rightarrow> real option" where
  "key_loop lib obj [] cur = cur"
| "key_loop lib obj (k # ks) cur =
     (case map_of obj k of
        None \<Rightarrow> key_loop lib obj ks cur
      | Some v \<Rightarrow>
          (case py_float lib v of
             Some x \<Rightarrow> Some x
           | None \<Rightarrow> key_loop lib obj ks None))"

definition temp_keys :: "string list" where
  "temp_keys = [''temperature_c'', ''temperature'', ''temp'', ''t'']"

definition hum_keys :: "string list" where
  "hum_keys = [''humidity_pct'', ''humidity'', ''hum'', ''h'']"

definition parse_json_fields :: "pylib \<Rightarrow> string \<Rightarrow> real option \<times> real option" where
  "parse_json_fields lib payload_text =
     (case json_loads lib payload_text of
        Some (JObject obj) \<Rightarrow>
          (let temp = key_loop lib obj temp_keys None;
               hum = key_loop lib obj hum_keys None
           in (case map_of obj ''payload'' of
                 Some (JObject inner) \<Rightarrow>
                   if temp = None \<or> hum = None
                   then (key_loop lib inner temp_keys temp, key_loop lib inner hum_keys hum)
                   else (temp, hum)
               | _ \<Rightarrow> (temp, hum)))
      | _ \<Rightarrow> (None, None))"

definition parse_payload :: "pylib \<Rightarrow> string \<Rightarrow> real option \<times> real option" where
  "parse_payload lib payload_text =
     (case parse_json_fields lib payload_text of
        (temp, hum) \<Rightarrow>
          (if temp = None then re_temp lib payload_text else temp,
           if hum = None then re_hum lib payload_text else hum))"

subsection \<open>\<^verbatim>\<open>_infer_device_id\<close>\<close>

text \<open>The first of the keys that is in the dict with a \<^verbatim>\<open>str\<close> value.\<close>

fun first_str_field :: "(string \<times> json) list \<Rightarrow> string list \<Rightarrow> string option" where
  "first_str_field obj [] = None"
| "first_str_field obj (k # ks) =
     (case map_of obj k of
        Some (JString s) \<Rightarrow> Some s
      | _ \<Rightarrow> first_str_field obj ks)"

definition id_keys :: "string list" where
  "id_keys = [''device_id'', ''device'', ''id'', ''dev'', ''name'']"

text \<open>\<^verbatim>\<open>str.strip()\<close> and \<^verbatim>\<open>str.split(sep)\<close> for a one-character separator.\<close>

definition is_space :: "char \<Rightarrow> bool" where
  "is_space c = (of_char c \<in> {9, 10, 11, 12, 13, 28, 29, 30, 31, 32 :: nat})"

definition strip :: "string \<Rightarrow> string" where
  "strip s = rev (dropWhile is_space (rev (dropWhile is_space s)))"

fun split_py :: "char \<Rightarrow> string \<Rightarrow> string list" where
  "split_py sep [] = [[]]"
| "split_py sep (c # cs) =
     (if c = sep then [] # split_py sep cs
      else (case split_py sep cs of
              [] \<Rightarrow> [[c]]
            | w # ws \<Rightarrow> (c # w) # ws))"

definition infer_device_id :: "json option \<Rightarrow> string \<Rightarrow> string" where
  "infer_device_id parsed topic =
     (case (case parsed of Some (JObject obj) \<Rightarrow> first_str_field obj id_keys | _ \<Rightarrow> None) of
        Some s \<Rightarrow> s
      | None \<Rightarrow>
          if CHR ''/'' \<in> set topic then last (split_py CHR ''/'' (strip topic))
          else if topic = [] then ''unknown'' else topic)"

subsection \<open>The store and \<^verbatim>\<open>_on_message\<close>\<close>

text \<open>A sample is the tuple \<^verbatim>\<open>(now, temp, hum, payload_text, msg.topic)\<close>.\<close>

record sample =
  s_ts :: datetime
  s_temp :: "real option"
  s_hum :: "real option"
  s_payload :: string
  s_topic :: string

definition DEFAULT_MAX_SAMPLES :: nat where
  "DEFAULT_MAX_SAMPLES = 1000"

text \<open>
  \<^verbatim>\<open>deque.append\<close> on a deque with a \<^verbatim>\<open>maxlen\<close>: the element goes to the right end, and
  when the deque is then longer than \<^verbatim>\<open>maxlen\<close> one element leaves at the left end.
\<close>

definition deque_append :: "nat \<Rightarrow> 'a list \<Rightarrow> 'a \<Rightarrow> 'a list" where
  "deque_append maxlen dq x =
     (if length (dq @ [x]) > maxlen then tl (dq @ [x]) else dq @ [x])"

text \<open>
  \<^verbatim>\<open>_store\<close> is a \<^verbatim>\<open>defaultdict\<close> of deques: its items in insertion order.
  \<^verbatim>\<open>_store[device_id].append(x)\<close> appends to the deque of a known key where it stands,
  and creates the deque of a new key at the end. \<^verbatim>\<open>_store.get(k)\<close> is \<^term>\<open>map_of store k\<close>.
\<close>

type_synonym store = "(string \<times> sample list) list"

fun store_append :: "store \<Rightarrow> string \<Rightarrow> sample \<Rightarrow> store" where
  "store_append [] device_id x = [(device_id, deque_append DEFAULT_MAX_SAMPLES [] x)]"
| "store_append ((k, dq) # rest) device_id x =
     (if k = device_id then (k, deque_append DEFAULT_MAX_SAMPLES dq x) # rest
      else (k, dq) # store_append rest device_id x)"

text \<open>
  An inbound message: the routing key and the payload after
  \<^verbatim>\<open>decode("utf-8", errors="replace")\<close>, which cannot fail.
\<close>

record mqtt_message =
  msg_topic :: string
  msg_payload :: string

definition message_device_id :: "pylib \<Rightarrow> mqtt_message \<Rightarrow> string" where
  "message_device_id lib msg =
     infer_device_id (json_loads lib (msg_payload msg)) (msg_topic msg)"

definition message_sample :: "pylib \<Rightarrow> datetime \<Rightarrow> mqtt_message \<Rightarrow> sample" where
  "message_sample lib now msg =
     (case parse_payload lib (msg_payload msg) of
        (temp, hum) \<Rightarrow>
          \<lparr>s_ts = now, s_temp = temp, s_hum = hum,
           s_payload = msg_payload msg, s_topic = msg_topic msg\<rparr>)"

definition on_message :: "pylib \<Rightarrow> datetime \<Rightarrow> mqtt_message \<Rightarrow> store \<Rightarrow> store" where
  "on_message lib now msg store =
     store_append store (message_device_id lib msg) (message_sample lib now msg)"

text \<open>The messages delivered one after the other, each with its time of receipt.\<close>

fun ingest :: "pylib \<Rightarrow> (datetime \<times> mqtt_message) list \<Rightarrow> store \<Rightarrow> store" where
  "ingest lib [] store = store"
| "ingest lib ((now, msg) # rest) store = ingest lib rest (on_message lib now msg store)"

subsection \<open>\<^verbatim>\<open>MQTTSimple.get_avg\<close>\<close>

record aggregate =
  temperature_c :: "real option"
  humidity_pct :: "real option"
  last_ts :: datetime

text \<open>
  The loop over \<^verbatim>\<open>reversed(dq)\<close>, with the three variables it updates; it breaks at the
  first sample older than the cutoff.
\<close>

fun scan ::
  "datetime \<Rightarrow> sample list \<Rightarrow> real list \<times> real list \<times> datetime option
     \<Rightarrow> real list \<times> real list \<times> datetime option" where
  "scan cutoff [] acc = acc"
| "scan cutoff (s # rest) (temps, hums, lts) =
     (if s_ts s < cutoff then (temps, hums, lts)
      else scan cutoff rest
        ((case s_temp s of None \<Rightarrow> temps | Some t \<Rightarrow> temps @ [t]),
         (case s_hum s of None \<Rightarrow> hums | Some h \<Rightarrow> hums @ [h]),
         (case lts of None \<Rightarrow> Some (s_ts s)
          | Some l \<Rightarrow> Some (if s_ts s > l then s_ts s else l))))"

text \<open>\<^verbatim>\<open>(sum(xs)/len(xs)) if xs else None\<close>.\<close>

definition avg :: "real list \<Rightarrow> real option" where
  "avg xs = (if xs = [] then None else Some (sum_list xs / real (length xs)))"

text \<open>\<^verbatim>\<open>cutoff = now - timedelta(seconds=int(window_seconds))\<close>, for an integer window.\<close>

definition cutoff_at :: "datetime \<Rightarrow> int \<Rightarrow> py_error + datetime" where
  "cutoff_at now window_seconds =
     (case timedelta_seconds window_seconds of
        Inl e \<Rightarrow> Inl e
      | Inr delta \<Rightarrow> datetime_sub now delta)"

definition get_avg :: "store \<Rightarrow> datetime \<Rightarrow> string \<Rightarrow> int \<Rightarrow> py_error + aggregate option" where
  "get_avg store now device_id window_seconds =
     (case cutoff_at now window_seconds of
        Inl e \<Rightarrow> Inl e
      | Inr cutoff \<Rightarrow>
          (case map_of store device_id of
             None \<Rightarrow> Inr None
           | Some dq \<Rightarrow>
               if dq = [] then Inr None
               else (case scan cutoff (rev dq) ([], [], None) of
                       (temps, hums, None) \<Rightarrow> Inr None
                     | (temps, hums, Some l) \<Rightarrow>
                         Inr (Some \<lparr>temperature_c = avg temps, humidity_pct = avg hums,
                                    last_ts = l\<rparr>))))"

subsection \<open>Notions of the specification about the store\<close>

text \<open>The \<open>n\<close> most recently arrived elements of a sequence, in arrival order.\<close>

definition keep_last :: "nat \<Rightarrow> 'a list \<Rightarrow> 'a list" where
  "keep_last n xs = drop (length xs - n) xs"

text \<open>
  The samples that a sequence of deliveries produces for one source, in arrival order:
  one per message whose device id is that source.
\<close>

definition arrived :: "pylib \<Rightarrow> (datetime \<times> mqtt_message) list \<Rightarrow> string \<Rightarrow> sample list" where
  "arrived lib events device_id =
     map (\<lambda>(now, msg). message_sample lib now msg)
       (filter (\<lambda>(now, msg). message_device_id lib msg = device_id) events)"

text \<open>
  The history a source has after the samples \<open>xs\<close> arrived for it: none before the first
  sample, then the last 1000.
\<close>

definition history_of :: "sample list \<Rightarrow> sample list option" where
  "history_of xs = (if xs = [] then None else Some (keep_last DEFAULT_MAX_SAMPLES xs))"

text \<open>
  The samples a TIME window yields: those a scan of the history from the newest sample
  backwards meets before the first sample older than the cutoff.
\<close>

definition in_window :: "datetime \<Rightarrow> sample list \<Rightarrow> sample list" where
  "in_window cutoff dq = takeWhile (\<lambda>s. cutoff \<le> s_ts s) (rev dq)"

text \<open>
  The aggregate of a set of samples as the specification words it: absent for no samples,
  otherwise each field's mean over the samples that carry the field, and the latest
  timestamp.
\<close>

definition aggregate_of :: "sample list \<Rightarrow> aggregate option" where
  "aggregate_of w =
     (if w = [] then None
      else Some \<lparr>temperature_c = avg (List.map_filter s_temp w),
                 humidity_pct = avg (List.map_filter s_hum w),
                 last_ts = Max (set (map s_ts w))\<rparr>)"

text \<open>A library on which every parse fails, as every parse of an empty payload does.\<close>

definition lib_none :: pylib where
  "lib_none =
     \<lparr>json_loads = (\<lambda>s. None), float_of_str = (\<lambda>s. None), re_temp = (\<lambda>s. None),
      re_hum = (\<lambda>s. None), fromisoformat = (\<lambda>s. None)\<rparr>"

section \<open>The dashboard page \<^verbatim>\<open>pages/04_usb_control.py\<close>: manual override and thresholds\<close>

text \<open>
  The actuator gateway is reached with \<^verbatim>\<open>requests.get(f"{PI_URL}/on", timeout=8)\<close> or
  \<^verbatim>\<open>.../off\<close>. The call either returns a response carrying a status code or raises;
  the page never looks at the status code beyond printing it. The gateway is a parameter
  \<open>requests_get\<close> of every operation that calls it.
\<close>

datatype endpoint = Path_on | Path_off

datatype http_result = Response int | Request_raised

text \<open>
  \<^verbatim>\<open>st.session_state["ws_manual_override"]\<close> holds \<^verbatim>\<open>None\<close> or a dict
  \<^verbatim>\<open>{"state": "on"/"off", "ts": iso}\<close>. A missing key and the value \<^verbatim>\<open>None\<close> read the
  same through \<^verbatim>\<open>st.session_state.get\<close>, so both are \<^term>\<open>None\<close> here.
\<close>

record manual_override =
  mo_state :: string
  mo_ts :: string

text \<open>What one press of a sidebar button does: the request it sent, and the latch afterwards.\<close>

record button_effect =
  sent :: endpoint
  latch :: "manual_override option"

text \<open>
  \<^verbatim>\<open>if st.button("Manual ON"): try: r = requests.get(.../on); ...;
  st.session_state["ws_manual_override"] = {"state": "on", "ts": now} except: error\<close>.
  The latch is written only after the request has returned.
\<close>

definition manual_on ::
  "(endpoint \<Rightarrow> http_result) \<Rightarrow> string \<Rightarrow> manual_override option \<Rightarrow> button_effect" where
  "manual_on requests_get now_iso ws =
     (case requests_get Path_on of
        Response code \<Rightarrow>
          \<lparr>sent = Path_on, latch = Some \<lparr>mo_state = ''on'', mo_ts = now_iso\<rparr>\<rparr>
      | Request_raised \<Rightarrow> \<lparr>sent = Path_on, latch = ws\<rparr>)"

definition manual_off ::
  "(endpoint \<Rightarrow> http_result) \<Rightarrow> string \<Rightarrow> manual_override option \<Rightarrow> button_effect" where
  "manual_off requests_get now_iso ws =
     (case requests_get Path_off of
        Response code \<Rightarrow>
          \<lparr>sent = Path_off, latch = Some \<lparr>mo_state = ''off'', mo_ts = now_iso\<rparr>\<rparr>
      | Request_raised \<Rightarrow> \<lparr>sent = Path_off, latch = ws\<rparr>)"

text \<open>
  The "Clear manual override" button is drawn only while the latch is truthy; pressing it
  pops the key.
\<close>

definition clear_manual_override :: "bool \<Rightarrow> manual_override option \<Rightarrow> manual_override option" where
  "clear_manual_override pressed ws =
     (case ws of None \<Rightarrow> None | Some mo \<Rightarrow> if pressed then None else Some mo)"

text \<open>
  \<^verbatim>\<open>st.sidebar.number_input(label, min_value, max_value, value, step, key)\<close>: the widget
  holds \<open>current\<close> (initially the default \<^verbatim>\<open>value\<close>); the operator may commit a number,
  and the widget takes it when it lies within its own bounds. Nothing else is checked.
\<close>

definition number_input :: "real \<Rightarrow> real \<Rightarrow> real \<Rightarrow> real option \<Rightarrow> real" where
  "number_input min_value max_value current entered =
     (case entered of
        None \<Rightarrow> current
      | Some v \<Rightarrow> if min_value \<le> v \<and> v \<le> max_value then v else current)"

record thresholds =
  th_on :: real
  th_off :: real

text \<open>The two threshold widgets of the sidebar, with their defaults 75.0 and 40.0.\<close>

definition default_thresholds :: thresholds where
  "default_thresholds = \<lparr>th_on = 75, th_off = 40\<rparr>"

definition sidebar_thresholds :: "thresholds \<Rightarrow> real option \<Rightarrow> real option \<Rightarrow> thresholds" where
  "sidebar_thresholds cur entered_on entered_off =
     \<lparr>th_on = number_input 0 100 (th_on cur) entered_on,
      th_off = number_input 0 100 (th_off cur) entered_off\<rparr>"

section \<open>The sliding window of \<^verbatim>\<open>usb_control_fragment\<close>\<close>

subsection \<open>\<^verbatim>\<open>_to_epoch\<close>\<close>

text \<open>
  The page reads the store as a mapping from device ids to sequences of tuples
  \<^verbatim>\<open>(ts, temp, hum, raw, topic)\<close> and makes no assumption on what \<^verbatim>\<open>ts\<close> is:
  \<^verbatim>\<open>None\<close>, a number, a string, a datetime (naive, or aware with its UTC offset in
  microseconds), or anything else.
\<close>

datatype ts_value =
    Ts_None
  | Ts_number real
  | Ts_str string
  | Ts_datetime "int option" datetime
  | Ts_other

text \<open>The Unix epoch 1970-01-01T00:00:00 as a datetime, and \<^verbatim>\<open>timestamp()\<close> of a UTC datetime.\<close>

definition unix_epoch :: datetime where
  "unix_epoch = 62135596800000000"

definition timestamp_utc :: "datetime \<Rightarrow> real" where
  "timestamp_utc dt = real_of_int (dt - unix_epoch) / 1000000"

text \<open>
  A naive datetime is read as UTC (\<^verbatim>\<open>replace(tzinfo=timezone.utc)\<close>); an aware one is
  converted with \<^verbatim>\<open>astimezone(timezone.utc)\<close>, which subtracts the offset and raises when
  the result leaves the range of datetimes. \<^term>\<open>None\<close> stands for that exception.
\<close>

definition datetime_to_epoch :: "int option \<Rightarrow> datetime \<Rightarrow> real option" where
  "datetime_to_epoch tz local =
     (case tz of
        None \<Rightarrow> Some (timestamp_utc local)
      | Some offset \<Rightarrow>
          (case datetime_sub local offset of
             Inl e \<Rightarrow> None
           | Inr utc \<Rightarrow> Some (timestamp_utc utc)))"

text \<open>
  The \<^verbatim>\<open>except\<close> branch retries with \<^verbatim>\<open>float(ts)\<close>, which can succeed only for a string;
  a value that matches no \<^verbatim>\<open>isinstance\<close> test falls off the end of the function.
\<close>

fun to_epoch :: "pylib \<Rightarrow> ts_value \<Rightarrow> real option" where
  "to_epoch lib Ts_None = None"
| "to_epoch lib (Ts_number r) = Some r"
| "to_epoch lib (Ts_str s) =
     (case fromisoformat lib s of
        None \<Rightarrow> float_of_str lib s
      | Some (tz, local) \<Rightarrow>
          (case datetime_to_epoch tz local of
             Some e \<Rightarrow> Some e
           | None \<Rightarrow> float_of_str lib s))"
| "to_epoch lib (Ts_datetime tz local) = datetime_to_epoch tz local"
| "to_epoch lib Ts_other = None"

subsection \<open>Collecting, sorting and cutting the entries\<close>

record raw_tuple =
  r_ts :: ts_value
  r_temp :: "real option"
  r_hum :: "real option"
  r_raw :: string
  r_topic :: string

record entry =
  e_device :: string
  e_ts_epoch :: "real option"
  e_temp :: "real option"
  e_hum :: "real option"
  e_raw :: string
  e_topic :: string

definition entry_of :: "pylib \<Rightarrow> string \<Rightarrow> raw_tuple \<Rightarrow> entry" where
  "entry_of lib dev r =
     \<lparr>e_device = dev, e_ts_epoch = to_epoch lib (r_ts r), e_temp = r_temp r, e_hum = r_hum r,
      e_raw = r_raw r, e_topic = r_topic r\<rparr>"

text \<open>\<^verbatim>\<open>for dev, dq in _store.items(): for (...) in dq: all_entries.append({...})\<close>.\<close>

definition all_entries :: "pylib \<Rightarrow> (string \<times> raw_tuple list) list \<Rightarrow> entry list" where
  "all_entries lib items = concat (map (\<lambda>(dev, dq). map (entry_of lib dev) dq) items)"

text \<open>The subscriber's store as the page reads it: every timestamp an aware UTC datetime.\<close>

definition store_items :: "store \<Rightarrow> (string \<times> raw_tuple list) list" where
  "store_items st =
     map (\<lambda>(dev, dq).
            (dev, map (\<lambda>s. \<lparr>r_ts = Ts_datetime (Some 0) (s_ts s), r_temp = s_temp s,
                            r_hum = s_hum s, r_raw = s_payload s, r_topic = s_topic s\<rparr>) dq))
       st"

text \<open>
  The page sorts twice, and \<^verbatim>\<open>list.sort\<close> is stable, as \<^const>\<open>sort_key\<close> is. The first
  key is the tuple \<^verbatim>\<open>(ts_epoch is None, ts_epoch)\<close>; its second component is compared only
  between two entries with an epoch, so its value for \<^verbatim>\<open>None\<close> does not matter. The second
  key is \<^verbatim>\<open>_sort_key\<close>.
\<close>

definition first_key :: "entry \<Rightarrow> bool \<times> real" where
  "first_key e = (e_ts_epoch e = None, case e_ts_epoch e of None \<Rightarrow> 0 | Some x \<Rightarrow> x)"

definition sort_key_py :: "entry \<Rightarrow> real" where
  "sort_key_py e = (case e_ts_epoch e of Some x \<Rightarrow> x | None \<Rightarrow> - 1)"

definition sorted_entries :: "entry list \<Rightarrow> entry list" where
  "sorted_entries es = sort_key sort_key_py (sort_key first_key es)"

definition WINDOW_RECORDS :: int where
  "WINDOW_RECORDS = 60"

text \<open>
  \<^verbatim>\<open>all_entries[-window_records:] if len(all_entries) >= 1 else []\<close>, with Python's slice:
  the last \<open>n\<close> elements for a positive \<open>n\<close>, the whole list for 0, and the list without
  its first \<open>-n\<close> elements for a negative \<open>n\<close>.
\<close>

definition recent_entries :: "int \<Rightarrow> entry list \<Rightarrow> entry list" where
  "recent_entries window_records es =
     (if length es \<ge> 1 then
        (if window_records > 0 then drop (length es - nat window_records) es
         else if window_records = 0 then es
         else drop (nat (- window_records)) es)
      else [])"

text \<open>The entries that the cut leaves out, for a positive window.\<close>

definition excluded_entries :: "int \<Rightarrow> entry list \<Rightarrow> entry list" where
  "excluded_entries window_records es = take (length es - nat window_records) es"

subsection \<open>Per-device lists and the two sensors\<close>

text \<open>
  \<^verbatim>\<open>per_device\<close> maps a device to its lists \<^verbatim>\<open>hums\<close> and \<^verbatim>\<open>temps\<close>, in the order in which
  the devices first occur in the window.
\<close>

type_synonym per_device = "(string \<times> real list \<times> real list) list"

definition opt_list :: "'a option \<Rightarrow> 'a list" where
  "opt_list v = (case v of None \<Rightarrow> [] | Some x \<Rightarrow> [x])"

fun add_entry :: "per_device \<Rightarrow> entry \<Rightarrow> per_device" where
  "add_entry [] ent = [(e_device ent, opt_list (e_hum ent), opt_list (e_temp ent))]"
| "add_entry ((dev, hums, temps) # rest) ent =
     (if dev = e_device ent
      then (dev, hums @ opt_list (e_hum ent), temps @ opt_list (e_temp ent)) # rest
      else (dev, hums, temps) # add_entry rest ent)"

definition build_per_device :: "entry list \<Rightarrow> per_device" where
  "build_per_device recent = foldl add_entry [] recent"

text \<open>\<^verbatim>\<open>str.lower()\<close> on ASCII text, and the substring test \<^verbatim>\<open>pat in s\<close>.\<close>

definition lower_char :: "char \<Rightarrow> char" where
  "lower_char c =
     (if 65 \<le> (of_char c :: nat) \<and> (of_char c :: nat) \<le> 90
      then char_of (of_char c + 32 :: nat) else c)"

definition lower :: "string \<Rightarrow> string" where
  "lower s = map lower_char s"

fun contains :: "string \<Rightarrow> string \<Rightarrow> bool" where
  "contains pat [] = (pat = [])"
| "contains pat (c # cs) = (take (length pat) (c # cs) = pat \<or> contains pat cs)"

text \<open>Python's truth value of \<^verbatim>\<open>sensor_id\<close>: neither \<^verbatim>\<open>None\<close> nor the empty string.\<close>

definition truthy :: "string option \<Rightarrow> bool" where
  "truthy v = (case v of None \<Rightarrow> False | Some s \<Rightarrow> s \<noteq> [])"

text \<open>The loop over \<^verbatim>\<open>dev_keys\<close> that looks for name hints; a later device overrides.\<close>

fun name_hints :: "string list \<Rightarrow> string option \<times> string option \<Rightarrow> string option \<times> string option" where
  "name_hints [] ids = ids"
| "name_hints (d # ds) (sensor1_id, sensor2_id) =
     name_hints ds
       (if contains ''easy'' (lower d) \<or> contains ''easylog'' (lower d)
           \<or> contains ''easy-log'' (lower d)
        then Some d else sensor1_id,
        if contains ''sense'' (lower d) \<or> contains ''hat'' (lower d)
        then Some d else sensor2_id)"

definition pick_sensors :: "string list \<Rightarrow> string option \<times> string option" where
  "pick_sensors dev_keys =
     (case name_hints dev_keys (None, None) of
        (hint1, hint2) \<Rightarrow>
          (let sensor1_id =
                 (if \<not> truthy hint1 \<and> dev_keys \<noteq> [] then Some (dev_keys ! 0) else hint1);
               sensor2_id =
                 (if \<not> truthy hint2 \<and> length dev_keys \<ge> 2
                  then (if Some (dev_keys ! 1) \<noteq> sensor1_id then Some (dev_keys ! 1)
                        else Some (dev_keys ! 0))
                  else hint2)
           in (sensor1_id, sensor2_id)))"

text \<open>
  The arithmetic of the blend is float arithmetic: each operation gives the exact result
  rounded to a float. The rounding is the parameter \<open>rnd\<close> of the definitions below, and
  nothing is assumed about it. The humidity values and \<^verbatim>\<open>w2\<close> are floats already.

  \<^verbatim>\<open>statistics.mean\<close> of a list of floats that is not empty: the exact mean, rounded once.
\<close>

definition mean :: "(real \<Rightarrow> real) \<Rightarrow> real list \<Rightarrow> real" where
  "mean rnd xs = rnd (sum_list xs / real (length xs))"

text \<open>
  \<^verbatim>\<open>if sensor_id and sensor_id in per_device and per_device[sensor_id]["hums"]:
  avg = statistics.mean(per_device[sensor_id]["hums"])\<close>, else \<^verbatim>\<open>None\<close>.
\<close>

definition avg_sensor :: "(real \<Rightarrow> real) \<Rightarrow> string option \<Rightarrow> per_device \<Rightarrow> real option" where
  "avg_sensor rnd sensor_id pd =
     (if truthy sensor_id then
        (case map_of pd (the sensor_id) of
           None \<Rightarrow> None
         | Some (hums, temps) \<Rightarrow> if hums = [] then None else Some (mean rnd hums))
      else None)"

subsection \<open>The weighted average\<close>

text \<open>
  \<^verbatim>\<open>w2\<close> is the sidebar slider (0 to 1, default 0.7) and \<^verbatim>\<open>w1 = 1.0 - float(w2)\<close>, one
  float subtraction. \<^verbatim>\<open>weighted_avg = w1 * avg_s1 + w2 * avg_s2\<close> is two float products
  and one float sum; with only one mean present the mean is passed on as it is.
\<close>

definition w1_of :: "(real \<Rightarrow> real) \<Rightarrow> real \<Rightarrow> real" where
  "w1_of rnd w2 = rnd (1 - w2)"

definition weighted_avg_of ::
  "(real \<Rightarrow> real) \<Rightarrow> real \<Rightarrow> real option \<Rightarrow> real option \<Rightarrow> real option" where
  "weighted_avg_of rnd w2 avg_s1 avg_s2 =
     (case (avg_s1, avg_s2) of
        (Some a1, Some a2) \<Rightarrow> Some (rnd (rnd (w1_of rnd w2 * a1) + rnd (w2 * a2)))
      | (None, Some a2) \<Rightarrow> Some a2
      | (Some a1, None) \<Rightarrow> Some a1
      | (None, None) \<Rightarrow> None)"

text \<open>
  The humidity values that the window holds for a designated sensor: none when the id is
  \<^verbatim>\<open>None\<close> or empty, or when the window has no record of that device.
\<close>

definition sensor_hums :: "string option \<Rightarrow> per_device \<Rightarrow> real list" where
  "sensor_hums sensor_id pd =
     (if truthy sensor_id then
        (case map_of pd (the sensor_id) of
           None \<Rightarrow> []
         | Some (hums, temps) \<Rightarrow> hums)
      else [])"

section \<open>The decision of one cycle of \<^verbatim>\<open>usb_control_fragment\<close>\<close>

text \<open>
  \<^verbatim>\<open>action_taken\<close> is a message string in the source; its shapes are the constructors
  here. \<open>No_action_no_samples\<close> and \<open>No_action_no_humidity\<close> are the messages of the two
  early \<^verbatim>\<open>continue\<close>s, taken when the store is empty and when the weighted average is
  \<^verbatim>\<open>None\<close>. The message "Decision error" needs an exception in a comparison of two
  floats and cannot occur.
\<close>

datatype action_taken =
    No_action
  | No_action_no_samples
  | No_action_no_humidity
  | AUTO_ON int
  | AUTO_ON_failed
  | Auto_ON_suppressed
  | AUTO_OFF int
  | AUTO_OFF_failed

record decision =
  requested :: "endpoint option"
  action_taken :: action_taken

definition allow_auto_on :: "manual_override option \<Rightarrow> bool" where
  "allow_auto_on manual_override =
     (\<not> (case manual_override of None \<Rightarrow> False | Some mo \<Rightarrow> mo_state mo = ''off''))"

definition decide ::
  "(endpoint \<Rightarrow> http_result) \<Rightarrow> manual_override option \<Rightarrow> thresholds \<Rightarrow> real \<Rightarrow> decision" where
  "decide requests_get manual_override th weighted_avg =
     (if weighted_avg > th_on th then
        (if allow_auto_on manual_override then
           (case requests_get Path_on of
              Response code \<Rightarrow> \<lparr>requested = Some Path_on, action_taken = AUTO_ON code\<rparr>
            | Request_raised \<Rightarrow> \<lparr>requested = Some Path_on, action_taken = AUTO_ON_failed\<rparr>)
         else \<lparr>requested = None, action_taken = Auto_ON_suppressed\<rparr>)
      else if weighted_avg < th_off th then
        (case requests_get Path_off of
           Response code \<Rightarrow> \<lparr>requested = Some Path_off, action_taken = AUTO_OFF code\<rparr>
         | Request_raised \<Rightarrow> \<lparr>requested = Some Path_off, action_taken = AUTO_OFF_failed\<rparr>)
      else \<lparr>requested = None, action_taken = No_action\<rparr>)"

definition decision_cycle ::
  "(endpoint \<Rightarrow> http_result) \<Rightarrow> manual_override option \<Rightarrow> thresholds \<Rightarrow> real option \<Rightarrow> decision" where
  "decision_cycle requests_get manual_override th weighted_avg =
     (case weighted_avg of
        None \<Rightarrow> \<lparr>requested = None, action_taken = No_action_no_humidity\<rparr>
      | Some b \<Rightarrow> decide requests_get manual_override th b)"

text \<open>
  The action of a cycle, in the specification's vocabulary, is the command the cycle sends
  to the gateway: \<^verbatim>\<open>/on\<close>, \<^verbatim>\<open>/off\<close>, or nothing.
\<close>

datatype action = TURN_ON | TURN_OFF | NO_ACTION

definition action_of :: "decision \<Rightarrow> action" where
  "action_of d =
     (case requested d of
        None \<Rightarrow> NO_ACTION
      | Some Path_on \<Rightarrow> TURN_ON
      | Some Path_off \<Rightarrow> TURN_OFF)"

section \<open>One cycle of \<^verbatim>\<open>usb_control_fragment\<close>\<close>

text \<open>The blend of a cycle: the weighted average over the window of the two sensors.\<close>

definition cycle_blend :: "(real \<Rightarrow> real) \<Rightarrow> real \<Rightarrow> int \<Rightarrow> entry list \<Rightarrow> real option" where
  "cycle_blend rnd w2 window_records es =
     (let recent = recent_entries window_records (sorted_entries es);
          pd = build_per_device recent
      in (case pick_sensors (map fst pd) of
            (sensor1_id, sensor2_id) \<Rightarrow>
              weighted_avg_of rnd w2 (avg_sensor rnd sensor1_id pd)
                (avg_sensor rnd sensor2_id pd)))"

definition usb_control_cycle ::
  "pylib \<Rightarrow> (real \<Rightarrow> real) \<Rightarrow> (endpoint \<Rightarrow> http_result) \<Rightarrow> manual_override option
     \<Rightarrow> thresholds \<Rightarrow> real \<Rightarrow> int \<Rightarrow> (string \<times> raw_tuple list) list \<Rightarrow> decision" where
  "usb_control_cycle lib rnd requests_get manual_override th w2 window_records items =
     (if all_entries lib items = []
      then \<lparr>requested = None, action_taken = No_action_no_samples\<rparr>
      else decision_cycle requests_get manual_override th
             (cycle_blend rnd w2 window_records (all_entries lib items)))"

text \<open>
  A window of three devices without name hints, of which only the third reports humidity.
\<close>

definition window_three_devices :: "entry list" where
  "window_three_devices =
     [\<lparr>e_device = ''node-a'', e_ts_epoch = Some 10, e_temp = Some 21, e_hum = None,
       e_raw = ''a'', e_topic = ''MSN/group6/node-a''\<rparr>,
      \<lparr>e_device = ''node-b'', e_ts_epoch = Some 11, e_temp = Some 22, e_hum = None,
       e_raw = ''b'', e_topic = ''MSN/group6/node-b''\<rparr>,
      \<lparr>e_device = ''node-c'', e_ts_epoch = Some 12, e_temp = None, e_hum = Some 90,
       e_raw = ''c'', e_topic = ''MSN/group6/node-c''\<rparr>]"

section \<open>Properties of the store\<close>

lemma deque_append_keep_last:
  "0 < n \<Longrightarrow> deque_append n (keep_last n xs) x = keep_last n (xs @ [x])"
  by (cases "length xs < n")
    (auto simp: deque_append_def keep_last_def drop_Suc tl_drop Suc_diff_le simp flip: drop_Suc)


lemma map_of_store_append:
  "map_of (store_append st d x) d' =
     (if d' = d
      then Some (deque_append DEFAULT_MAX_SAMPLES
                   (case map_of st d of None \<Rightarrow> [] | Some dq \<Rightarrow> dq) x)
      else map_of st d')"
  by (induction st d x rule: store_append.induct) auto

lemma history_of_snoc:
  "history_of (xs @ [x]) =
     Some (deque_append DEFAULT_MAX_SAMPLES
             (case history_of xs of None \<Rightarrow> [] | Some dq \<Rightarrow> dq) x)"
proof -
  have pos: "0 < DEFAULT_MAX_SAMPLES" by (simp add: DEFAULT_MAX_SAMPLES_def)
  have "(case history_of xs of None \<Rightarrow> [] | Some dq \<Rightarrow> dq) = keep_last DEFAULT_MAX_SAMPLES xs"
    by (simp add: history_of_def keep_last_def)
  then show ?thesis
    using deque_append_keep_last [OF pos, of xs x] by (simp add: history_of_def)
qed

lemma arrived_snoc:
  "arrived lib (events @ [(now, msg)]) d =
     (if message_device_id lib msg = d then arrived lib events d @ [message_sample lib now msg]
      else arrived lib events d)"
  by (simp add: arrived_def)

lemma ingest_history:
  assumes "\<And>d. map_of st d = history_of (arrived lib before d)"
  shows "map_of (ingest lib events st) d = history_of (arrived lib (before @ events) d)"
  using assms
proof (induction events arbitrary: st before)
  case Nil
  then show ?case by simp
next
  case (Cons e events)
  obtain now msg where e: "e = (now, msg)" by (cases e)
  have step: "map_of (on_message lib now msg st) d'
      = history_of (arrived lib (before @ [(now, msg)]) d')" for d'
    by (simp add: on_message_def map_of_store_append Cons.prems arrived_snoc history_of_snoc)
  show ?case
    using Cons.IH [of "on_message lib now msg st" "before @ [(now, msg)]", OF step]
    by (simp add: e)
qed

text \<open>
  Claim C3. After any sequence of deliveries into the empty store, the history of every
  source holds exactly the last 1000 samples that arrived for it, in arrival order (and the
  source has no history when none arrived); so its length never exceeds 1000. An append to
  a history of 1000 samples drops the oldest one and puts the new one last.
\<close>

theorem history_bounded_most_recent:
  "map_of (ingest lib events []) device_id =
     (if arrived lib events device_id = [] then None
      else Some (keep_last DEFAULT_MAX_SAMPLES (arrived lib events device_id)))
   \<and> (\<forall>dq. map_of (ingest lib events []) device_id = Some dq \<longrightarrow> length dq \<le> 1000)
   \<and> (\<forall>(dq :: sample list) x.
        length dq = 1000 \<longrightarrow> deque_append DEFAULT_MAX_SAMPLES dq x = tl dq @ [x])"
proof -
  have "map_of ([] :: store) d = history_of (arrived lib [] d)" for d
    by (simp add: history_of_def arrived_def)
  then have hist: "map_of (ingest lib events []) device_id
      = history_of (arrived lib events device_id)"
    using ingest_history [of "[]" lib "[]" events device_id] by simp
  have bound: "length dq \<le> 1000" if "map_of (ingest lib events []) device_id = Some dq" for dq
    using that hist
    by (auto simp: history_of_def keep_last_def DEFAULT_MAX_SAMPLES_def split: if_splits)
  have full: "deque_append DEFAULT_MAX_SAMPLES dq x = tl dq @ [x]"
    if "length dq = 1000" for dq :: "sample list" and x
    using that by (cases dq) (auto simp: deque_append_def DEFAULT_MAX_SAMPLES_def)
  show ?thesis
    using hist bound full by (simp add: history_of_def)
qed

theorem history_bounded_most_recent_witness:
  "map_of (ingest lib_none
       (replicate 1000 (5, \<lparr>msg_topic = ''MSN/group6/easylog-01'', msg_payload = ''''\<rparr>)
        @ [(6, \<lparr>msg_topic = ''MSN/group6/easylog-01'', msg_payload = ''''\<rparr>)]) [])
     ''easylog-01''
   = Some (replicate 999 \<lparr>s_ts = 5, s_temp = None, s_hum = None, s_payload = '''',
                          s_topic = ''MSN/group6/easylog-01''\<rparr>
           @ [\<lparr>s_ts = 6, s_temp = None, s_hum = None, s_payload = '''',
               s_topic = ''MSN/group6/easylog-01''\<rparr>])"
proof -
  have dev: "message_device_id lib_none
      \<lparr>msg_topic = ''MSN/group6/easylog-01'', msg_payload = ''''\<rparr> = ''easylog-01''"
    by (simp add: message_device_id_def lib_none_def infer_device_id_def strip_def is_space_def)
  have smp: "message_sample lib_none now
      \<lparr>msg_topic = ''MSN/group6/easylog-01'', msg_payload = ''''\<rparr>
      = \<lparr>s_ts = now, s_temp = None, s_hum = None, s_payload = '''',
         s_topic = ''MSN/group6/easylog-01''\<rparr>" for now
    by (simp add: message_sample_def parse_payload_def parse_json_fields_def lib_none_def)
  show ?thesis
    using history_bounded_most_recent [of lib_none
        "replicate 1000 (5, \<lparr>msg_topic = ''MSN/group6/easylog-01'', msg_payload = ''''\<rparr>)
         @ [(6, \<lparr>msg_topic = ''MSN/group6/easylog-01'', msg_payload = ''''\<rparr>)]"
        "''easylog-01''"]
    by (simp add: arrived_def dev smp keep_last_def DEFAULT_MAX_SAMPLES_def)
qed

section \<open>Properties of ingestion\<close>



lemma split_py_not_Nil [simp]: "split_py sep s \<noteq> []"
  by (induction s) (auto split: list.splits)







section \<open>Properties of \<^verbatim>\<open>get_avg\<close>\<close>

lemma scan_takeWhile:
  "scan cutoff xs (temps, hums, lts) =
     (temps @ List.map_filter s_temp (takeWhile (\<lambda>s. cutoff \<le> s_ts s) xs),
      hums @ List.map_filter s_hum (takeWhile (\<lambda>s. cutoff \<le> s_ts s) xs),
      (if takeWhile (\<lambda>s. cutoff \<le> s_ts s) xs = [] then lts
       else Some (Max (set (map s_ts (takeWhile (\<lambda>s. cutoff \<le> s_ts s) xs))
                       \<union> set_option lts))))"
proof (induction xs arbitrary: temps hums lts)
  case Nil
  then show ?case by (simp add: List.map_filter_simps)
next
  case (Cons s xs)
  show ?case
  proof (cases "s_ts s < cutoff")
    case True
    then show ?thesis by (simp add: List.map_filter_simps)
  next
    case False
    then have "cutoff \<le> s_ts s" by simp
    then show ?thesis
      by (simp add: Cons.IH List.map_filter_simps split: option.split)
        (auto simp: max_def Max_insert2 intro!: arg_cong [where f = Max])
  qed
qed

lemma get_avg_window:
  "get_avg store now device_id window_seconds =
     (case cutoff_at now window_seconds of
        Inl e \<Rightarrow> Inl e
      | Inr cutoff \<Rightarrow>
          Inr (case map_of store device_id of
                 None \<Rightarrow> None
               | Some dq \<Rightarrow> aggregate_of (in_window cutoff dq)))"
proof -
  have "(case scan cutoff (rev dq) ([], [], None) of
           (temps, hums, None) \<Rightarrow> Inr None
         | (temps, hums, Some l) \<Rightarrow>
             Inr (Some \<lparr>temperature_c = avg temps, humidity_pct = avg hums, last_ts = l\<rparr>))
        = (Inr (aggregate_of (in_window cutoff dq)) :: py_error + aggregate option)"
    for cutoff dq
    by (simp add: scan_takeWhile aggregate_of_def in_window_def)
  then show ?thesis
    by (simp add: get_avg_def aggregate_of_def in_window_def split: sum.split option.split)
qed

lemma cutoff_at_in_range:
  assumes "is_datetime now" "is_datetime (now - window_seconds * 1000000)"
  shows "cutoff_at now window_seconds = Inr (now - window_seconds * 1000000)"
proof -
  have lo: "- 315537897599 \<le> window_seconds" and hi: "window_seconds \<le> 315537897599"
    using assms by (simp_all add: is_datetime_def datetime_max_def)
  have "window_seconds div 86400 \<le> 315537897599 div 86400"
    using hi by (rule zdiv_mono1) simp
  then have up: "window_seconds div 86400 \<le> 999999999" by simp
  have "(- 315537897599) div 86400 \<le> window_seconds div 86400"
    using lo by (rule zdiv_mono1) simp
  then have down: "- 999999999 \<le> window_seconds div 86400" by simp
  show ?thesis
    using assms up down by (simp add: cutoff_at_def timedelta_seconds_def datetime_sub_def)
qed

lemma takeWhile_rev_sorted:
  assumes "sorted (map f xs)"
  shows "takeWhile (\<lambda>x. c \<le> f x) (rev xs) = rev (filter (\<lambda>x. (c::int) \<le> f x) xs)"
  using assms
proof (induction xs rule: rev_induct)
  case Nil
  then show ?case by simp
next
  case (snoc x xs)
  have sorted_xs: "sorted (map f xs)" and le: "\<forall>y\<in>set xs. f y \<le> f x"
    using snoc.prems by (auto simp: sorted_append)
  show ?case
  proof (cases "c \<le> f x")
    case True
    then show ?thesis using snoc.IH [OF sorted_xs] by simp
  next
    case False
    then have "filter (\<lambda>x. c \<le> f x) xs = []"
      using le by (auto simp: filter_empty_conv)
    then show ?thesis using False by simp
  qed
qed

lemma map_filter_rev: "List.map_filter f (rev xs) = rev (List.map_filter f xs)"
  by (simp add: List.map_filter_def rev_map rev_filter)

lemma aggregate_of_rev: "aggregate_of (rev w) = aggregate_of w"
  by (simp add: aggregate_of_def avg_def map_filter_rev sum_list_rev rev_map [symmetric])


text \<open>
  Claim C4. Let \<open>now\<close> and the cutoff \<open>now - s\<close> of a window of \<open>s\<close> seconds be datetimes
  (timestamps count microseconds, so \<open>s\<close> seconds are \<open>s * 1000000\<close>), and let the source
  have a history. Then \<^verbatim>\<open>get_avg\<close> returns the aggregate of the samples that the scan
  from the newest sample backwards meets before the first sample with a timestamp below
  the cutoff. When the history is stored in timestamp order, these are exactly the samples
  with timestamp at least \<open>now - s\<close>.
\<close>

theorem time_window_scan:
  assumes "is_datetime now" and "is_datetime (now - window_seconds * 1000000)"
    and "map_of store device_id = Some dq"
  shows "get_avg store now device_id window_seconds
         = Inr (aggregate_of
                  (takeWhile (\<lambda>s. \<not> s_ts s < now - window_seconds * 1000000) (rev dq)))
     \<and> (sorted (map s_ts dq) \<longrightarrow>
          get_avg store now device_id window_seconds
            = Inr (aggregate_of (filter (\<lambda>s. s_ts s \<ge> now - window_seconds * 1000000) dq)))"
proof -
  let ?cutoff = "now - window_seconds * 1000000"
  have not_less: "(\<lambda>s. \<not> s_ts s < ?cutoff) = (\<lambda>s. ?cutoff \<le> s_ts s)"
    by (simp add: not_less)
  have window: "get_avg store now device_id window_seconds
      = Inr (aggregate_of (takeWhile (\<lambda>s. ?cutoff \<le> s_ts s) (rev dq)))"
    using assms(3) cutoff_at_in_range [OF assms(1,2)]
    by (simp add: get_avg_window in_window_def)
  have scan: "get_avg store now device_id window_seconds
      = Inr (aggregate_of (takeWhile (\<lambda>s. \<not> s_ts s < ?cutoff) (rev dq)))"
    using window by (simp only: not_less)
  have ordered: "get_avg store now device_id window_seconds
      = Inr (aggregate_of (filter (\<lambda>s. s_ts s \<ge> ?cutoff) dq))"
    if "sorted (map s_ts dq)"
    using takeWhile_rev_sorted [OF that, of ?cutoff] window
    by (simp add: aggregate_of_rev)
  show ?thesis
    using scan ordered by blast
qed

theorem time_window_scan_witness:
  "get_avg
     [(''sense_hat'',
       [\<lparr>s_ts = 63900000060000000, s_temp = Some 19, s_hum = Some 40, s_payload = ''a'',
         s_topic = ''MSN/group6/sense_hat''\<rparr>,
        \<lparr>s_ts = 63900000080000000, s_temp = Some 20, s_hum = None, s_payload = ''b'',
         s_topic = ''MSN/group6/sense_hat''\<rparr>,
        \<lparr>s_ts = 63900000090000000, s_temp = Some 22, s_hum = Some 50, s_payload = ''c'',
         s_topic = ''MSN/group6/sense_hat''\<rparr>])]
     63900000100000000 ''sense_hat'' 30
   = Inr (Some \<lparr>temperature_c = Some 21, humidity_pct = Some 50,
                 last_ts = 63900000090000000\<rparr>)"
proof -
  have now: "is_datetime 63900000100000000"
    and cutoff: "is_datetime (63900000100000000 - 30 * 1000000)"
    by (simp_all add: is_datetime_def datetime_max_def)
  show ?thesis
    using time_window_scan [OF now cutoff, of
        "[(''sense_hat'',
           [\<lparr>s_ts = 63900000060000000, s_temp = Some 19, s_hum = Some 40, s_payload = ''a'',
             s_topic = ''MSN/group6/sense_hat''\<rparr>,
            \<lparr>s_ts = 63900000080000000, s_temp = Some 20, s_hum = None, s_payload = ''b'',
             s_topic = ''MSN/group6/sense_hat''\<rparr>,
            \<lparr>s_ts = 63900000090000000, s_temp = Some 22, s_hum = Some 50, s_payload = ''c'',
             s_topic = ''MSN/group6/sense_hat''\<rparr>])]"
        "''sense_hat''"]
    by (simp add: aggregate_of_def avg_def)
qed



section \<open>Properties of the sliding window and the weighted average\<close>

lemma sorted_sorted_entries: "sorted (map sort_key_py (sorted_entries es))"
  by (simp add: sorted_entries_def)

lemma sorted_split:
  assumes "sorted (map f xs)" "x \<in> set (take n xs)" "y \<in> set (drop n xs)"
  shows "f x \<le> f y"
proof -
  have "sorted (map f (take n xs) @ map f (drop n xs))"
    using assms(1) by (simp flip: map_append)
  then show ?thesis
    using assms(2,3) by (auto simp: sorted_append)
qed

text \<open>
  Claim C10. An entry whose timestamp \<^verbatim>\<open>_to_epoch\<close> cannot convert has the sort key -1.
  In the sorted list every such entry stands before every entry with an epoch of 0 or
  more. For a positive window size (the page uses 60): whenever an entry without an epoch
  is still inside the window, no entry with an epoch of 0 or more has been left out, so
  the entries without an epoch are left out first.
\<close>

theorem unparseable_entries_sorted_first:
  "(to_epoch lib (r_ts r) = None \<longrightarrow> sort_key_py (entry_of lib dev r) = - 1)
   \<and> (\<forall>i j. i < length (sorted_entries es) \<and> j < length (sorted_entries es)
          \<and> e_ts_epoch (sorted_entries es ! i) = None
          \<and> (\<exists>x. e_ts_epoch (sorted_entries es ! j) = Some x \<and> 0 \<le> x) \<longrightarrow> i < j)
   \<and> (0 < window_records
        \<and> (\<exists>e\<in>set (recent_entries window_records (sorted_entries es)). e_ts_epoch e = None) \<longrightarrow>
        (\<forall>e\<in>set (excluded_entries window_records (sorted_entries es)).
           \<forall>x. e_ts_epoch e = Some x \<longrightarrow> x < 0))"
proof -
  let ?s = "sorted_entries es"
  have srt: "sorted (map sort_key_py ?s)" by (rule sorted_sorted_entries)
  have key: "to_epoch lib (r_ts r) = None \<longrightarrow> sort_key_py (entry_of lib dev r) = - 1"
    by (simp add: sort_key_py_def entry_of_def)
  have order: "i < j" if "i < length ?s" "j < length ?s" "e_ts_epoch (?s ! i) = None"
    "e_ts_epoch (?s ! j) = Some x" "0 \<le> x" for i j x
  proof (rule ccontr)
    assume "\<not> i < j"
    then have "j \<le> i" by simp
    then have "map sort_key_py ?s ! j \<le> map sort_key_py ?s ! i"
      using srt that(1) by (simp add: sorted_iff_nth_mono del: nth_map)
    then show False
      using that by (simp add: sort_key_py_def)
  qed
  have cut: "x < 0" if "0 < window_records" "e' \<in> set (recent_entries window_records ?s)"
    "e_ts_epoch e' = None" "e \<in> set (excluded_entries window_records ?s)" "e_ts_epoch e = Some x"
    for e e' x
  proof -
    have "e' \<in> set (drop (length ?s - nat window_records) ?s)"
      using that(1,2) by (auto simp: recent_entries_def split: if_splits)
    moreover have "e \<in> set (take (length ?s - nat window_records) ?s)"
      using that(4) by (simp add: excluded_entries_def)
    ultimately have "sort_key_py e \<le> sort_key_py e'"
      using sorted_split [OF srt] by blast
    then show ?thesis
      using that(3,5) by (simp add: sort_key_py_def)
  qed
  show ?thesis
    using key order cut by blast
qed

theorem unparseable_entries_sorted_first_witness:
  "to_epoch lib_none (r_ts \<lparr>r_ts = Ts_other, r_temp = None, r_hum = Some 55, r_raw = ''a'',
                            r_topic = ''t''\<rparr>) = None
   \<and> sort_key_py (entry_of lib_none ''d1''
        \<lparr>r_ts = Ts_other, r_temp = None, r_hum = Some 55, r_raw = ''a'', r_topic = ''t''\<rparr>) = - 1
   \<and> sorted_entries
        [\<lparr>e_device = ''d1'', e_ts_epoch = None, e_temp = None, e_hum = Some 55, e_raw = ''a'',
          e_topic = ''t''\<rparr>,
         \<lparr>e_device = ''d1'', e_ts_epoch = Some 5, e_temp = None, e_hum = Some 60, e_raw = ''b'',
          e_topic = ''t''\<rparr>,
         \<lparr>e_device = ''d2'', e_ts_epoch = Some (- 7), e_temp = None, e_hum = Some 65, e_raw = ''c'',
          e_topic = ''t''\<rparr>]
       = [\<lparr>e_device = ''d2'', e_ts_epoch = Some (- 7), e_temp = None, e_hum = Some 65,
            e_raw = ''c'', e_topic = ''t''\<rparr>,
          \<lparr>e_device = ''d1'', e_ts_epoch = None, e_temp = None, e_hum = Some 55, e_raw = ''a'',
            e_topic = ''t''\<rparr>,
          \<lparr>e_device = ''d1'', e_ts_epoch = Some 5, e_temp = None, e_hum = Some 60, e_raw = ''b'',
            e_topic = ''t''\<rparr>]
   \<and> excluded_entries 2 (sorted_entries
        [\<lparr>e_device = ''d1'', e_ts_epoch = None, e_temp = None, e_hum = Some 55, e_raw = ''a'',
          e_topic = ''t''\<rparr>,
         \<lparr>e_device = ''d1'', e_ts_epoch = Some 5, e_temp = None, e_hum = Some 60, e_raw = ''b'',
          e_topic = ''t''\<rparr>,
         \<lparr>e_device = ''d2'', e_ts_epoch = Some (- 7), e_temp = None, e_hum = Some 65, e_raw = ''c'',
          e_topic = ''t''\<rparr>])
       = [\<lparr>e_device = ''d2'', e_ts_epoch = Some (- 7), e_temp = None, e_hum = Some 65,
            e_raw = ''c'', e_topic = ''t''\<rparr>]"
proof -
  have s: "sorted_entries
        [\<lparr>e_device = ''d1'', e_ts_epoch = None, e_temp = None, e_hum = Some 55, e_raw = ''a'',
          e_topic = ''t''\<rparr>,
         \<lparr>e_device = ''d1'', e_ts_epoch = Some 5, e_temp = None, e_hum = Some 60, e_raw = ''b'',
          e_topic = ''t''\<rparr>,
         \<lparr>e_device = ''d2'', e_ts_epoch = Some (- 7), e_temp = None, e_hum = Some 65, e_raw = ''c'',
          e_topic = ''t''\<rparr>]
       = [\<lparr>e_device = ''d2'', e_ts_epoch = Some (- 7), e_temp = None, e_hum = Some 65,
            e_raw = ''c'', e_topic = ''t''\<rparr>,
          \<lparr>e_device = ''d1'', e_ts_epoch = None, e_temp = None, e_hum = Some 55, e_raw = ''a'',
            e_topic = ''t''\<rparr>,
          \<lparr>e_device = ''d1'', e_ts_epoch = Some 5, e_temp = None, e_hum = Some 60, e_raw = ''b'',
            e_topic = ''t''\<rparr>]"
    by (simp add: sorted_entries_def sort_key_py_def first_key_def)
  show ?thesis
    using unparseable_entries_sorted_first [where lib = lib_none and dev = "''d1''"
        and r = "\<lparr>r_ts = Ts_other, r_temp = None, r_hum = Some 55, r_raw = ''a'', r_topic = ''t''\<rparr>"
        and window_records = 2
        and es = "[\<lparr>e_device = ''d1'', e_ts_epoch = None, e_temp = None, e_hum = Some 55,
                    e_raw = ''a'', e_topic = ''t''\<rparr>,
                  \<lparr>e_device = ''d1'', e_ts_epoch = Some 5, e_temp = None, e_hum = Some 60,
                    e_raw = ''b'', e_topic = ''t''\<rparr>,
                  \<lparr>e_device = ''d2'', e_ts_epoch = Some (- 7), e_temp = None, e_hum = Some 65,
                    e_raw = ''c'', e_topic = ''t''\<rparr>]"]
    by (simp add: s excluded_entries_def)
qed

text \<open>
  Two cycles run on concrete inputs, computed without rounding. Two messages with empty
  payloads give samples without humidity, so the cycle ends with "no humidity". In a
  window with one humidity of 70 from the first sensor and humidities 80 and 90 from the
  second, the blend is 0.3 * 70 + 0.7 * 85 = 80.5.
\<close>

lemma usb_control_cycle_example:
  "usb_control_cycle lib_none (\<lambda>x. x) (\<lambda>p. Response 200) None default_thresholds 0.7
     WINDOW_RECORDS
     (store_items
        (ingest lib_none
           [(63900000000000000, \<lparr>msg_topic = ''MSN/group6/easylog-01'', msg_payload = ''''\<rparr>),
            (63900000001000000, \<lparr>msg_topic = ''MSN/group6/sense_hat'', msg_payload = ''''\<rparr>)]
           []))
   = \<lparr>requested = None, action_taken = No_action_no_humidity\<rparr>"
  by code_simp

lemma cycle_blend_example:
  "cycle_blend (\<lambda>x. x) 0.7 WINDOW_RECORDS
     [\<lparr>e_device = ''easylog-01'', e_ts_epoch = Some 10, e_temp = Some 21, e_hum = Some 70,
       e_raw = ''a'', e_topic = ''MSN/group6/easylog-01''\<rparr>,
      \<lparr>e_device = ''sense_hat'', e_ts_epoch = Some 11, e_temp = None, e_hum = Some 80,
       e_raw = ''b'', e_topic = ''MSN/group6/sense_hat''\<rparr>,
      \<lparr>e_device = ''sense_hat'', e_ts_epoch = Some 12, e_temp = None, e_hum = Some 90,
       e_raw = ''c'', e_topic = ''MSN/group6/sense_hat''\<rparr>]
   = Some 80.5"
  by code_simp

lemma avg_sensor_hums:
  "avg_sensor rnd sensor_id pd =
     (if sensor_hums sensor_id pd = [] then None
      else Some (mean rnd (sensor_hums sensor_id pd)))"
  by (auto simp: avg_sensor_def sensor_hums_def split: option.splits)

text \<open>
  Claim C5 as stated fails for a mapping with more than the page's two sensors. In a
  window of three devices without name hints the page takes the first two as its sensors;
  when only the third reports humidity, exactly one source has a humidity mean (90), and
  yet the blend is absent.
\<close>

theorem third_source_counterexample:
  "map fst (build_per_device (recent_entries WINDOW_RECORDS (sorted_entries window_three_devices)))
     = [''node-a'', ''node-b'', ''node-c'']
   \<and> avg_sensor (\<lambda>x. x) (Some ''node-a'')
        (build_per_device (recent_entries WINDOW_RECORDS (sorted_entries window_three_devices)))
       = None
   \<and> avg_sensor (\<lambda>x. x) (Some ''node-b'')
        (build_per_device (recent_entries WINDOW_RECORDS (sorted_entries window_three_devices)))
       = None
   \<and> avg_sensor (\<lambda>x. x) (Some ''node-c'')
        (build_per_device (recent_entries WINDOW_RECORDS (sorted_entries window_three_devices)))
       = Some 90
   \<and> cycle_blend (\<lambda>x. x) 0.7 WINDOW_RECORDS window_three_devices = None"
  by code_simp

text \<open>
  Claim C5, amended. The blend of a cycle is taken over the page's two designated sensors
  only, \<^verbatim>\<open>sensor1_id\<close> and \<^verbatim>\<open>sensor2_id\<close> as picked from the devices of the window, with
  the weights \<open>w1 = 1 - w2\<close> and \<open>w2\<close>. Let \<open>h1\<close> and \<open>h2\<close> be the humidity values the window
  holds for the two. When only one of the two has values, the blend is exactly the mean
  of that sensor, whatever the weights; when neither has, the blend is absent, whatever
  other devices report; when both have, the blend is \<open>w1 * mean1 + w2 * mean2\<close> evaluated
  in float arithmetic (a subtraction, two products and a sum, each rounded), with no
  division by the sum of the weights. In exact arithmetic that value is the renormalised
  weighted mean, since the two weights sum to 1.
\<close>

theorem two_sensor_blend:
  assumes "pd = build_per_device (recent_entries window_records (sorted_entries es))"
    and "pick_sensors (map fst pd) = (sensor1_id, sensor2_id)"
    and "h1 = sensor_hums sensor1_id pd" and "h2 = sensor_hums sensor2_id pd"
  shows "(h1 \<noteq> [] \<and> h2 = [] \<longrightarrow> cycle_blend rnd w2 window_records es = Some (mean rnd h1))
     \<and> (h1 = [] \<and> h2 \<noteq> [] \<longrightarrow> cycle_blend rnd w2 window_records es = Some (mean rnd h2))
     \<and> (h1 = [] \<and> h2 = [] \<longrightarrow> cycle_blend rnd w2 window_records es = None)
     \<and> (h1 \<noteq> [] \<and> h2 \<noteq> [] \<longrightarrow>
          cycle_blend rnd w2 window_records es
            = Some (rnd (rnd (rnd (1 - w2) * mean rnd h1) + rnd (w2 * mean rnd h2))))
     \<and> weighted_avg_of (\<lambda>x. x) w2 (Some a) (Some b)
          = Some (((1 - w2) * a + w2 * b) / ((1 - w2) + w2))"
proof -
  have blend: "cycle_blend rnd w2 window_records es
      = weighted_avg_of rnd w2 (avg_sensor rnd sensor1_id pd) (avg_sensor rnd sensor2_id pd)"
    using assms(1,2) by (simp add: cycle_blend_def Let_def)
  have exact: "weighted_avg_of (\<lambda>x. x) w2 (Some a) (Some b)
      = Some (((1 - w2) * a + w2 * b) / ((1 - w2) + w2))"
    by (simp add: weighted_avg_of_def w1_of_def)
  show ?thesis
    using exact
    by (simp add: blend avg_sensor_hums assms(3,4) [symmetric] weighted_avg_of_def w1_of_def)
qed

theorem two_sensor_blend_witness:
  "cycle_blend (\<lambda>x. x) 0.7 WINDOW_RECORDS
     [\<lparr>e_device = ''easylog-01'', e_ts_epoch = Some 10, e_temp = Some 21, e_hum = Some 10,
       e_raw = ''a'', e_topic = ''MSN/group6/easylog-01''\<rparr>,
      \<lparr>e_device = ''sense_hat'', e_ts_epoch = Some 11, e_temp = Some 20, e_hum = None,
       e_raw = ''b'', e_topic = ''MSN/group6/sense_hat''\<rparr>]
     = Some 10
   \<and> cycle_blend (\<lambda>x. x) 0.7 WINDOW_RECORDS
     [\<lparr>e_device = ''easylog-01'', e_ts_epoch = Some 10, e_temp = Some 21, e_hum = Some 10,
       e_raw = ''a'', e_topic = ''MSN/group6/easylog-01''\<rparr>,
      \<lparr>e_device = ''sense_hat'', e_ts_epoch = Some 11, e_temp = Some 20, e_hum = Some 80,
       e_raw = ''b'', e_topic = ''MSN/group6/sense_hat''\<rparr>]
     = Some 59"
proof -
  have pd1: "[(''easylog-01'', [10], [21]), (''sense_hat'', [], [20])]
      = build_per_device (recent_entries WINDOW_RECORDS (sorted_entries
          [\<lparr>e_device = ''easylog-01'', e_ts_epoch = Some 10, e_temp = Some 21, e_hum = Some 10,
            e_raw = ''a'', e_topic = ''MSN/group6/easylog-01''\<rparr>,
           \<lparr>e_device = ''sense_hat'', e_ts_epoch = Some 11, e_temp = Some 20, e_hum = None,
            e_raw = ''b'', e_topic = ''MSN/group6/sense_hat''\<rparr>]))"
    by code_simp
  have pd2: "[(''easylog-01'', [10], [21]), (''sense_hat'', [80], [20])]
      = build_per_device (recent_entries WINDOW_RECORDS (sorted_entries
          [\<lparr>e_device = ''easylog-01'', e_ts_epoch = Some 10, e_temp = Some 21, e_hum = Some 10,
            e_raw = ''a'', e_topic = ''MSN/group6/easylog-01''\<rparr>,
           \<lparr>e_device = ''sense_hat'', e_ts_epoch = Some 11, e_temp = Some 20, e_hum = Some 80,
            e_raw = ''b'', e_topic = ''MSN/group6/sense_hat''\<rparr>]))"
    by code_simp
  have pick1: "pick_sensors (map fst [(''easylog-01'', [10::real], [21::real]),
        (''sense_hat'', [], [20])]) = (Some ''easylog-01'', Some ''sense_hat'')"
    by code_simp
  have pick2: "pick_sensors (map fst [(''easylog-01'', [10::real], [21::real]),
        (''sense_hat'', [80], [20])]) = (Some ''easylog-01'', Some ''sense_hat'')"
    by code_simp
  show ?thesis
    using two_sensor_blend [OF pd1 pick1 refl refl, where rnd = "\<lambda>x. x" and ?w2.0 = "0.7"]
      two_sensor_blend [OF pd2 pick2 refl refl, where rnd = "\<lambda>x. x" and ?w2.0 = "0.7"]
    by (simp add: sensor_hums_def truthy_def mean_def)
qed

section \<open>Properties of the decision\<close>

lemma action_of_decide:
  "action_of (decide requests_get manual_override th b) =
     (if b > th_on th then (if allow_auto_on manual_override then TURN_ON else NO_ACTION)
      else if b < th_off th then TURN_OFF else NO_ACTION)"
  by (simp add: decide_def action_of_def split: http_result.split)

text \<open>
  Claim C1. With the default thresholds (on = 75, off = 40) and no override latched, the
  cycle sends TURN_ON when the blend exceeds 75, TURN_OFF when it is below 40, and nothing
  otherwise, whatever the gateway answers; the blends 50, 80, 60, 35, 60 give
  NO_ACTION, TURN_ON, NO_ACTION, TURN_OFF, NO_ACTION in that order.
\<close>

theorem hysteresis_default_thresholds:
  "action_of (decision_cycle requests_get None default_thresholds (Some b)) =
     (if b > 75 then TURN_ON else if b < 40 then TURN_OFF else NO_ACTION)
   \<and> map (\<lambda>b. action_of (decision_cycle requests_get None default_thresholds (Some b)))
         [50, 80, 60, 35, 60]
       = [NO_ACTION, TURN_ON, NO_ACTION, TURN_OFF, NO_ACTION]"
  by (simp add: decision_cycle_def action_of_decide allow_auto_on_def default_thresholds_def)

theorem hysteresis_default_thresholds_witness:
  "action_of (decision_cycle (\<lambda>p. Request_raised) None default_thresholds (Some 80)) = TURN_ON
   \<and> action_of (decision_cycle (\<lambda>p. Response 200) None default_thresholds (Some 35)) = TURN_OFF
   \<and> action_of (decision_cycle (\<lambda>p. Response 200) None default_thresholds (Some 75)) = NO_ACTION"
  using hysteresis_default_thresholds [of "\<lambda>p. Request_raised" 80]
    hysteresis_default_thresholds [of "\<lambda>p. Response 200" 35]
    hysteresis_default_thresholds [of "\<lambda>p. Response 200" 75]
  by simp

text \<open>
  Claim C2. While the latch holds state "off": a blend above the ON threshold sends
  nothing and is reported as suppressed; a blend below the OFF threshold still sends
  TURN_OFF (the ON test comes first in the source, so this is stated for thresholds that
  are not inverted, the specification's given for a decision cycle); and once the latch
  has been cleared the same blend above the ON threshold sends TURN_ON.
\<close>

theorem override_off_precedence:
  assumes "mo_state mo = ''off''"
  shows "(b > th_on th \<longrightarrow>
            decision_cycle requests_get (Some mo) th (Some b)
              = \<lparr>requested = None, action_taken = Auto_ON_suppressed\<rparr>
            \<and> action_of (decision_cycle requests_get (Some mo) th (Some b)) = NO_ACTION)
       \<and> (th_off th \<le> th_on th \<longrightarrow> b < th_off th \<longrightarrow>
            action_of (decision_cycle requests_get (Some mo) th (Some b)) = TURN_OFF)
       \<and> (b > th_on th \<longrightarrow>
            action_of (decision_cycle requests_get (clear_manual_override True (Some mo)) th (Some b))
              = TURN_ON)"
proof -
  have off: "\<not> allow_auto_on (Some mo)"
    using assms by (simp add: allow_auto_on_def)
  have cleared: "allow_auto_on (clear_manual_override True (Some mo))"
    by (simp add: clear_manual_override_def allow_auto_on_def)
  have suppressed: "decide requests_get (Some mo) th b
      = \<lparr>requested = None, action_taken = Auto_ON_suppressed\<rparr>" if "b > th_on th"
    using that off by (simp add: decide_def)
  show ?thesis
    using off cleared suppressed
    by (auto simp: decision_cycle_def action_of_decide) (simp add: action_of_def)
qed

theorem override_off_precedence_witness:
  "action_of (decision_cycle (\<lambda>p. Response 200) (Some \<lparr>mo_state = ''off'', mo_ts = ''t0''\<rparr>)
       default_thresholds (Some 90)) = NO_ACTION
   \<and> action_of (decision_cycle (\<lambda>p. Response 200) (Some \<lparr>mo_state = ''off'', mo_ts = ''t0''\<rparr>)
       default_thresholds (Some 30)) = TURN_OFF
   \<and> action_of (decision_cycle (\<lambda>p. Response 200)
       (clear_manual_override True (Some \<lparr>mo_state = ''off'', mo_ts = ''t0''\<rparr>))
       default_thresholds (Some 90)) = TURN_ON"
  using override_off_precedence [where mo = "\<lparr>mo_state = ''off'', mo_ts = ''t0''\<rparr>"
      and b = 90 and th = default_thresholds and requests_get = "\<lambda>p. Response 200"]
    override_off_precedence [where mo = "\<lparr>mo_state = ''off'', mo_ts = ''t0''\<rparr>"
      and b = 30 and th = default_thresholds and requests_get = "\<lambda>p. Response 200"]
  by (simp add: default_thresholds_def action_of_def)

section \<open>Properties of the sidebar\<close>

text \<open>
  Claim C7 as stated fails: after a manual ON whose request returned, the latch is not
  absent; it holds state "on".
\<close>

theorem manual_on_latch_counterexample:
  "latch (manual_on (\<lambda>p. Response 200) ''t1'' None)
     = Some \<lparr>mo_state = ''on'', mo_ts = ''t1''\<rparr>
   \<and> latch (manual_on (\<lambda>p. Response 200) ''t1'' None) \<noteq> None"
  by (simp add: manual_on_def)

text \<open>
  Claim C7, amended. A manual ON sends \<^verbatim>\<open>/on\<close> and a manual OFF sends \<^verbatim>\<open>/off\<close>, whatever
  the latch held. When the request returns (any status code), manual ON sets the latch to
  state "on", under which auto-ON is allowed, and manual OFF sets it to state "off", under
  which auto-ON is suppressed. When the request raises, the latch keeps its value.
\<close>

theorem manual_buttons_latch:
  "sent (manual_on requests_get now_iso ws) = Path_on
   \<and> sent (manual_off requests_get now_iso ws) = Path_off
   \<and> (requests_get Path_on = Response code \<longrightarrow>
        latch (manual_on requests_get now_iso ws) = Some \<lparr>mo_state = ''on'', mo_ts = now_iso\<rparr>
        \<and> allow_auto_on (latch (manual_on requests_get now_iso ws)))
   \<and> (requests_get Path_off = Response code \<longrightarrow>
        latch (manual_off requests_get now_iso ws) = Some \<lparr>mo_state = ''off'', mo_ts = now_iso\<rparr>
        \<and> \<not> allow_auto_on (latch (manual_off requests_get now_iso ws)))
   \<and> (requests_get Path_on = Request_raised \<longrightarrow> latch (manual_on requests_get now_iso ws) = ws)
   \<and> (requests_get Path_off = Request_raised \<longrightarrow> latch (manual_off requests_get now_iso ws) = ws)"
  by (simp add: manual_on_def manual_off_def allow_auto_on_def split: http_result.split)

theorem manual_buttons_latch_witness:
  "latch (manual_on (\<lambda>p. Response 200) ''t1'' (Some \<lparr>mo_state = ''off'', mo_ts = ''t0''\<rparr>))
     = Some \<lparr>mo_state = ''on'', mo_ts = ''t1''\<rparr>
   \<and> latch (manual_off (\<lambda>p. Response 200) ''t1'' None)
     = Some \<lparr>mo_state = ''off'', mo_ts = ''t1''\<rparr>
   \<and> latch (manual_on (\<lambda>p. Request_raised) ''t1'' (Some \<lparr>mo_state = ''off'', mo_ts = ''t0''\<rparr>))
     = Some \<lparr>mo_state = ''off'', mo_ts = ''t0''\<rparr>"
  using manual_buttons_latch [where requests_get = "\<lambda>p. Response 200" and now_iso = "''t1''"
      and ws = "Some \<lparr>mo_state = ''off'', mo_ts = ''t0''\<rparr>" and code = 200]
    manual_buttons_latch [where requests_get = "\<lambda>p. Response 200" and now_iso = "''t1''"
      and ws = None and code = 200]
    manual_buttons_latch [where requests_get = "\<lambda>p. Request_raised" and now_iso = "''t1''"
      and ws = "Some \<lparr>mo_state = ''off'', mo_ts = ''t0''\<rparr>" and code = 200]
  by simp

text \<open>
  Claim C8 as stated fails: entering ON = 40 and OFF = 75 is taken as it is, although the
  OFF threshold is then not below the ON threshold.
\<close>

theorem inverted_thresholds_counterexample:
  "sidebar_thresholds default_thresholds (Some 40) (Some 75) = \<lparr>th_on = 40, th_off = 75\<rparr>
   \<and> \<not> th_off (sidebar_thresholds default_thresholds (Some 40) (Some 75))
        < th_on (sidebar_thresholds default_thresholds (Some 40) (Some 75))"
  by (simp add: sidebar_thresholds_def number_input_def)

text \<open>
  Claim C8, amended. The sidebar checks each threshold against the bounds 0 and 100 of
  its own widget and nothing else: every pair within the bounds, inverted or not, becomes
  the pair of thresholds exactly as entered.
\<close>

theorem thresholds_taken_as_entered:
  assumes "0 \<le> on" "on \<le> 100" "0 \<le> off" "off \<le> 100"
  shows "sidebar_thresholds cur (Some on) (Some off) = \<lparr>th_on = on, th_off = off\<rparr>"
  using assms by (simp add: sidebar_thresholds_def number_input_def)

theorem thresholds_taken_as_entered_witness:
  "sidebar_thresholds default_thresholds (Some 10) (Some 90) = \<lparr>th_on = 10, th_off = 90\<rparr>"
  using thresholds_taken_as_entered [where on = 10 and off = 90 and cur = default_thresholds]
  by simp

end
